theory Spec2Isabelle
  imports Complex_Main "HOL-Library.Log_Nat"
begin

section \<open>Python and tensor primitives used by \<open>deepwave/fwi.py\<close>\<close>

text \<open>
  A floating-point number is the rational it stands for. The elements of a tensor and the
  distances computed from them are exact. The scalar computations whose result is turned
  into an integer (by \<open>int()\<close> or by \<open>ceil().long()\<close>) and the steps returned with them
  are rounded after every operation, as the machine does: to binary64 for a Python
  float, to binary32 for a tensor of the default type. Counts and indices are natural
  numbers, taken to be far below \<open>2^53\<close>, and the places where Python would raise are
  branches that return an error.
\<close>

datatype error =
    ValueError
  | ZeroDivisionError
  | IndexError
  | RuntimeError
  | OverflowError
  | NonFinite

text \<open>
  \<open>RuntimeError\<close> is what the tensor library raises (a reduction of an empty tensor, a
  pooling window that does not fit, a negative size). \<open>OverflowError\<close> is what \<open>int()\<close>
  raises for an infinity, and the conversion of an integer too large for a float.
  \<open>NonFinite\<close> marks an infinity or a NaN that the code would carry on with silently:
  the model has no value for it and stops there.
\<close>

subsection \<open>Rounding to a floating-point format\<close>

text \<open>
  \<open>fl_round p emin emax x\<close> is the number of the binary format with \<open>p\<close> significant
  bits and exponents from \<open>emin\<close> to \<open>emax\<close> nearest to \<open>x\<close>, ties to the even
  significand, with gradual underflow; \<open>None\<close> stands for an overflow to infinity.
  \<open>float_exponent x\<close> is the \<open>e\<close> with \<open>2^e \<le> |x| < 2^(e+1)\<close>.
\<close>

definition round_even :: "rat \<Rightarrow> int" where
  "round_even y =
     (let f = \<lfloor>y\<rfloor>; r = y - of_int f
      in if r < 1 / 2 then f
         else if 1 / 2 < r then f + 1
         else if even f then f else f + 1)"

definition float_exponent :: "rat \<Rightarrow> int" where
  "float_exponent x =
     (let (a, b) = quotient_of \<bar>x\<bar>; d = bitlen a - bitlen b
      in if 2 powi d \<le> \<bar>x\<bar> then d else d - 1)"

definition fl_round :: "nat \<Rightarrow> int \<Rightarrow> int \<Rightarrow> rat \<Rightarrow> rat option" where
  "fl_round p emin emax x =
     (if x = 0 then Some 0
      else
        let e = max (float_exponent x) emin;
            ulp = 2 powi (e - (int p - 1));
            y = of_int (round_even (x / ulp)) * ulp
        in if y \<noteq> 0 \<and> emax < float_exponent y then None else Some y)"

definition fl64 :: "rat \<Rightarrow> rat option" where
  "fl64 = fl_round 53 (- 1022) 1023"

definition fl32 :: "rat \<Rightarrow> rat option" where
  "fl32 = fl_round 24 (- 126) 127"

subsection \<open>Integers, slices and tensors\<close>

definition py_int :: "rat \<Rightarrow> int" where
  \<comment> \<open>Python's \<open>int(x)\<close> of a float: truncation toward zero.\<close>
  "py_int x = (if 0 \<le> x then \<lfloor>x\<rfloor> else \<lceil>x\<rceil>)"

definition py_prefix :: "'a list \<Rightarrow> int \<Rightarrow> 'a list" where
  \<comment> \<open>The slice \<open>xs[:k]\<close>: a negative \<open>k\<close> counts from the end.\<close>
  "py_prefix xs k =
     (if k < 0 then take (nat (int (length xs) + k)) xs else take (nat k) xs)"

definition py_slice :: "'a list \<Rightarrow> nat \<Rightarrow> nat \<Rightarrow> 'a list" where
  \<comment> \<open>The slice \<open>xs[a:b]\<close> for indices that are not negative.\<close>
  "py_slice xs a b = take (b - a) (drop a xs)"

record tensor =
  shape :: "nat list"
  vals :: "rat list"

definition reshape :: "tensor \<Rightarrow> nat list \<Rightarrow> tensor" where
  "reshape t sh = t\<lparr>shape := sh\<rparr>"

definition rows :: "nat \<Rightarrow> 'a list \<Rightarrow> 'a list list" where
  \<comment> \<open>The values of a tensor cut along its last axis, of length \<open>n\<close>.\<close>
  "rows n xs = map (\<lambda>i. take n (drop (i * n) xs)) [0..<length xs div n]"

definition slice_last :: "tensor \<Rightarrow> int \<Rightarrow> error + tensor" where
  \<comment> \<open>The slice \<open>t[..., :k]\<close> along the last axis.\<close>
  "slice_last t k =
     (if shape t = [] then Inl IndexError
      else
        let l = last (shape t)
        in Inr \<lparr>shape = butlast (shape t) @ [length (py_prefix (replicate l (0::rat)) k)],
                vals = concat (map (\<lambda>row. py_prefix row k) (rows l (vals t)))\<rparr>)"

section \<open>The dataset\<close>

record dataset =
  ds_num_shots :: nat
  ds_num_steps :: nat
  ds_dt :: rat
  ds_dx :: rat
  ds_get_shots :: "nat \<Rightarrow> nat \<Rightarrow> tensor"
  ds_src_locs :: "rat list list list"
  ds_rec_locs :: "rat list list list"

section \<open>\<open>extract_batch\<close>\<close>

definition batch_range :: "nat \<Rightarrow> nat \<Rightarrow> nat \<Rightarrow> nat \<Rightarrow> nat \<Rightarrow> error + nat \<times> nat" where
  \<comment> \<open>Lines 9 to 18 of \<open>extract_batch\<close>: the pair \<open>(batch_start, batch_end)\<close>.\<close>
  "batch_range num_shots num_superbatches num_batches superbatch_idx batch_idx =
     (if num_superbatches = 0 then Inl ZeroDivisionError
      else
        let superbatch_size = nat \<lceil>(of_nat num_shots :: rat) / of_nat num_superbatches\<rceil>
        in if num_batches = 0 then Inl ZeroDivisionError
           else
             let batch_size = nat \<lceil>(of_nat superbatch_size :: rat) / of_nat num_batches\<rceil>;
                 batch_start = min (batch_idx * superbatch_size + superbatch_idx * batch_size)
                                   num_shots;
                 batch_end = min (batch_start + batch_size) num_shots
             in Inr (batch_start, batch_end))"

definition extract_batch ::
  "dataset \<Rightarrow> nat \<Rightarrow> nat \<Rightarrow> nat \<Rightarrow> nat \<Rightarrow>
   error + tensor \<times> rat list list list \<times> rat list list list" where
  "extract_batch dataset num_superbatches num_batches superbatch_idx batch_idx =
     (case batch_range (ds_num_shots dataset) num_superbatches num_batches
             superbatch_idx batch_idx of
        Inl e \<Rightarrow> Inl e
      | Inr (batch_start, batch_end) \<Rightarrow>
          let batch_data = ds_get_shots dataset batch_start batch_end;
              batch_src_locs = py_slice (ds_src_locs dataset) batch_start batch_end;
              batch_rec_locs = py_slice (ds_rec_locs dataset) batch_start batch_end
          in Inr (batch_data, batch_src_locs, batch_rec_locs))"

text \<open>
  One sweep, in the order of the loops of \<open>fwi\<close> (superbatches outside, batches inside),
  and the number of ranges of the sweep that hold a given shot.
\<close>

definition in_range :: "nat \<Rightarrow> error + nat \<times> nat \<Rightarrow> bool" where
  "in_range i r = (case r of Inl e \<Rightarrow> False | Inr (a, b) \<Rightarrow> a \<le> i \<and> i < b)"

definition sweep_ranges :: "nat \<Rightarrow> nat \<Rightarrow> nat \<Rightarrow> (error + nat \<times> nat) list" where
  "sweep_ranges num_shots num_superbatches num_batches =
     concat (map (\<lambda>superbatch_idx.
                map (\<lambda>batch_idx.
                  batch_range num_shots num_superbatches num_batches superbatch_idx batch_idx)
                  [0..<num_batches])
              [0..<num_superbatches])"

definition visits :: "nat \<Rightarrow> nat \<Rightarrow> nat \<Rightarrow> nat \<Rightarrow> nat" where
  "visits num_shots num_superbatches num_batches i =
     length (filter (in_range i) (sweep_ranges num_shots num_superbatches num_batches))"

section \<open>\<open>pool_data\<close>\<close>

text \<open>
  \<open>torch.nn.AvgPool1d(kernel_size, padding)\<close> is a class of the tensor library, not of
  this repository. It is modelled here after the library's documented contract for the
  arguments \<open>pool_data\<close> gives it: an input of two or three axes whose axes other than
  the batch axis are not empty, stride equal to the kernel size, \<open>padding\<close> zeros added
  on both sides of the last axis, zeros counted in the mean, output length
  \<open>floor((L + 2 * padding - kernel_size) / kernel_size + 1)\<close>; the library refuses a
  kernel size that is not positive, a padding larger than half the kernel size and an
  output that would be empty.
\<close>

definition avg_pool1d_row :: "nat \<Rightarrow> nat \<Rightarrow> nat \<Rightarrow> rat list \<Rightarrow> rat list" where
  "avg_pool1d_row kernel_size padding l_out xs =
     (let padded = replicate padding 0 @ xs @ replicate padding 0
      in map (\<lambda>i. sum_list (take kernel_size (drop (i * kernel_size) padded))
                   / of_nat kernel_size)
           [0..<l_out])"

definition AvgPool1d :: "int \<Rightarrow> int \<Rightarrow> tensor \<Rightarrow> tensor option" where
  "AvgPool1d kernel_size padding input =
     (let sh = shape input
      in if length sh \<noteq> 2 \<and> length sh \<noteq> 3 then None
         else if 0 \<in> set (if length sh = 3 then tl sh else sh) then None
         else if kernel_size \<le> 0 \<or> padding < 0 \<or> kernel_size div 2 < padding then None
         else
           let l_in = last sh;
               l_out = (int l_in + 2 * padding - kernel_size) div kernel_size + 1
           in if l_out < 1 then None
              else Some \<lparr>shape = butlast sh @ [nat l_out],
                         vals = concat (map (avg_pool1d_row (nat kernel_size) (nat padding)
                                               (nat l_out))
                                          (rows l_in (vals input)))\<rparr>)"

definition pool_data :: "tensor \<Rightarrow> int \<Rightarrow> rat \<Rightarrow> rat \<Rightarrow> error + tensor \<times> rat" where
  "pool_data data num_pool dt start_time =
     (if dt = 0 then Inl ZeroDivisionError
      else
        case fl64 (start_time / dt) of
          None \<Rightarrow> Inl OverflowError
        | Some ratio \<Rightarrow>
            if num_pool = 0 then Inl ZeroDivisionError
            else
              let padding = py_int ratio mod num_pool
              in case AvgPool1d num_pool padding data of
                   None \<Rightarrow> Inl RuntimeError
                 | Some data_pool \<Rightarrow>
                     (case fl64 (of_int num_pool) of
                        None \<Rightarrow> Inl OverflowError
                      | Some n \<Rightarrow>
                          (case fl64 (dt * n) of
                             None \<Rightarrow> Inl NonFinite
                           | Some new_dt \<Rightarrow> Inr (data_pool, new_dt))))"

section \<open>\<open>pool_model\<close>\<close>

datatype poolfunc = Pool_AvgPool1d | Pool_AvgPool2d | Pool_AvgPool3d

definition select_poolfunc :: "nat \<Rightarrow> error + poolfunc" where
  \<comment> \<open>Lines 38 to 45: the dispatch on the rank of the model.\<close>
  "select_poolfunc ndims =
     (if ndims = 2 then Inr Pool_AvgPool1d
      else if ndims = 3 then Inr Pool_AvgPool2d
      else if ndims = 4 then Inr Pool_AvgPool3d
      else Inl ValueError)"

definition model_num_pool :: "tensor \<Rightarrow> rat \<Rightarrow> rat \<Rightarrow> rat \<Rightarrow> error + int" where
  \<comment> \<open>Lines 46 to 50: the decimation factor \<open>num_pool\<close>. The scalars are Python floats;
      \<open>max_dx / torch.as_tensor(dx)\<close> is the tensor's \<open>reciprocal() * max_dx\<close> in
      single precision.\<close>
  "model_num_pool model dt dx min_cells_per_wavelength =
     (if vals model = [] then Inl RuntimeError
      else
        let min_vel = Min (set (vals model))
        in if dt = 0 then Inl ZeroDivisionError
           else
             case fl64 (1 / dt) of
               None \<Rightarrow> Inl NonFinite
             | Some inv_dt \<Rightarrow>
             case fl64 (inv_dt / 2) of
               None \<Rightarrow> Inl NonFinite
             | Some max_freq \<Rightarrow>
             if max_freq = 0 then Inl ZeroDivisionError
             else
             case fl64 (min_vel / max_freq) of
               None \<Rightarrow> Inl NonFinite
             | Some min_wavelength \<Rightarrow>
             if min_cells_per_wavelength = 0 then Inl ZeroDivisionError
             else
             case fl64 (min_wavelength / min_cells_per_wavelength) of
               None \<Rightarrow> Inl NonFinite
             | Some max_dx \<Rightarrow>
             case fl32 dx of
               None \<Rightarrow> Inl NonFinite
             | Some dx32 \<Rightarrow>
             if dx32 = 0 then Inl NonFinite
             else
             case fl32 (1 / dx32) of
               None \<Rightarrow> Inl NonFinite
             | Some reciprocal \<Rightarrow>
             case fl32 max_dx of
               None \<Rightarrow> Inl NonFinite
             | Some max_dx32 \<Rightarrow>
             case fl32 (reciprocal * max_dx32) of
               None \<Rightarrow> Inl NonFinite
             | Some q \<Rightarrow> Inr \<lceil>q\<rceil>)"

definition scaled_dx :: "rat \<Rightarrow> int \<Rightarrow> error + rat" where
  \<comment> \<open>Line 53: \<open>dx * num_pool\<close>, a Python float times an integer tensor, in single
      precision.\<close>
  "scaled_dx dx num_pool =
     (case fl32 dx of
        None \<Rightarrow> Inl NonFinite
      | Some dx32 \<Rightarrow>
          (case fl32 (of_int num_pool) of
             None \<Rightarrow> Inl NonFinite
           | Some n \<Rightarrow>
               (case fl32 (dx32 * n) of None \<Rightarrow> Inl NonFinite | Some y \<Rightarrow> Inr y)))"

definition tensor_first :: "tensor \<Rightarrow> error + tensor" where
  \<comment> \<open>The index \<open>t[0]\<close> along the first axis.\<close>
  "tensor_first t =
     (case shape t of
        [] \<Rightarrow> Inl IndexError
      | n # sh \<Rightarrow>
          if n = 0 then Inl IndexError
          else Inr \<lparr>shape = sh, vals = take (prod_list sh) (vals t)\<rparr>)"

text \<open>
  The pooling classes \<open>AvgPool1d\<close>, \<open>AvgPool2d\<close> and \<open>AvgPool3d\<close> applied to the model
  are the tensor library's: \<open>pool_model\<close> takes them as the parameter \<open>avg_pool\<close>, which
  receives the class chosen, the window and the reshaped model, and answers \<open>None\<close> where
  the library raises.
\<close>

definition pool_model ::
  "(poolfunc \<Rightarrow> int \<Rightarrow> tensor \<Rightarrow> tensor option) \<Rightarrow> tensor \<Rightarrow> rat \<Rightarrow> rat \<Rightarrow> rat \<Rightarrow>
   error + tensor \<times> rat" where
  "pool_model avg_pool model dt dx min_cells_per_wavelength =
     (let ndims = length (shape model)
      in case select_poolfunc ndims of
           Inl e \<Rightarrow> Inl e
         | Inr poolfunc \<Rightarrow>
             (case model_num_pool model dt dx min_cells_per_wavelength of
                Inl e \<Rightarrow> Inl e
              | Inr num_pool \<Rightarrow>
                  (case avg_pool poolfunc num_pool (reshape model (1 # shape model)) of
                     None \<Rightarrow> Inl RuntimeError
                   | Some pooled \<Rightarrow>
                       (case tensor_first pooled of
                          Inl e \<Rightarrow> Inl e
                        | Inr model_pool \<Rightarrow>
                            (case scaled_dx dx num_pool of
                               Inl e \<Rightarrow> Inl e
                             | Inr new_dx \<Rightarrow> Inr (model_pool, new_dx))))))"

section \<open>\<open>apply_max_time\<close>\<close>

definition apply_max_time ::
  "tensor \<Rightarrow> rat list \<Rightarrow> rat \<Rightarrow> rat \<Rightarrow> int \<Rightarrow> error + tensor \<times> rat list" where
  "apply_max_time batch_data_true src_amp dt src_start_time max_time =
     (case slice_last batch_data_true max_time of
        Inl e \<Rightarrow> Inl e
      | Inr batch_data_true \<Rightarrow>
          if dt = 0 then Inl ZeroDivisionError
          else
            case fl64 (- src_start_time / dt) of
              None \<Rightarrow> Inl OverflowError
            | Some ratio \<Rightarrow>
            case fl64 (of_int max_time) of
              None \<Rightarrow> Inl OverflowError
            | Some steps \<Rightarrow>
            case fl64 (ratio + steps) of
              None \<Rightarrow> Inl OverflowError
            | Some time_sum \<Rightarrow>
                let max_src_amp_time = py_int time_sum
                in Inr (batch_data_true, py_prefix src_amp max_src_amp_time))"

section \<open>\<open>calc_survey_pad\<close>\<close>

definition calc_survey_pad :: "int \<Rightarrow> rat \<Rightarrow> tensor \<Rightarrow> rat \<Rightarrow> error + rat list" where
  "calc_survey_pad max_time dt model max_horiz_survey_pad =
     (let ndims = int (length (shape model)) - 1
      in if vals model = [] then Inl RuntimeError
         else
           let pad_dist = Max (set (vals model)) * of_int max_time * dt / 2
           in if 2 * ndims < 0 then Inl RuntimeError
              else
                let survey_pad = replicate (nat (2 * ndims)) pad_dist
                in if ndims > 1
                   then Inr (take 2 survey_pad @
                             map (\<lambda>x. min x max_horiz_survey_pad) (drop 2 survey_pad))
                   else Inr survey_pad)"

section \<open>\<open>run_batch\<close> and \<open>fwi\<close>\<close>

text \<open>
  The optimiser, the propagator, the loss and the backward pass are collaborators. Their
  state (the wavelet, the model, the gradient buffers and the optimiser's moments) is a
  value of an abstract type \<open>'s\<close>; \<open>co_propagate\<close> stands for the rest of \<open>run_batch\<close>
  after the pooling: the copy of the wavelet for each shot, the permutation of the axes,
  the propagator, the loss and \<open>loss.backward()\<close>.
\<close>

record 's collaborators =
  co_init :: "rat list \<Rightarrow> tensor \<Rightarrow> bool \<Rightarrow> bool \<Rightarrow> rat \<Rightarrow> rat \<Rightarrow> 's"
  co_src_amp :: "'s \<Rightarrow> rat list"
  co_model :: "'s \<Rightarrow> tensor"
  co_zero_grad :: "'s \<Rightarrow> 's"
  co_step :: "'s \<Rightarrow> 's"
  co_avg_pool :: "poolfunc \<Rightarrow> int \<Rightarrow> tensor \<Rightarrow> tensor option"
  co_propagate ::
    "tensor \<Rightarrow> rat \<Rightarrow> rat list \<Rightarrow> rat list \<Rightarrow> tensor \<Rightarrow>
     rat list list list \<Rightarrow> rat list list list \<Rightarrow> rat \<Rightarrow> tensor \<Rightarrow> 's \<Rightarrow>
     error + 's \<times> rat"

definition run_batch ::
  "'s collaborators \<Rightarrow> dataset \<Rightarrow> rat \<Rightarrow> int \<Rightarrow> tensor \<Rightarrow>
   rat list list list \<Rightarrow> rat list list list \<Rightarrow> int \<Rightarrow> rat list \<Rightarrow> rat list \<Rightarrow> 's \<Rightarrow>
   error + 's \<times> rat" where
  "run_batch co dataset src_start_time num_pool_data batch_data_true batch_src_locs
     batch_rec_locs max_time pml_width survey_pad st =
     (case apply_max_time batch_data_true (co_src_amp co st) (ds_dt dataset)
             src_start_time max_time of
        Inl e \<Rightarrow> Inl e
      | Inr (batch_data_true, src_amp) \<Rightarrow>
          (case pool_data batch_data_true num_pool_data (ds_dt dataset) 0 of
             Inl e \<Rightarrow> Inl e
           | Inr (batch_data_true, dt) \<Rightarrow>
               (case pool_data \<lparr>shape = [1, 1, length src_amp], vals = src_amp\<rparr>
                       num_pool_data (ds_dt dataset) src_start_time of
                  Inl e \<Rightarrow> Inl e
                | Inr (src_amp_pool, unused_dt) \<Rightarrow>
                    (case pool_model (co_avg_pool co) (co_model co st) dt (ds_dx dataset) 4 of
                       Inl e \<Rightarrow> Inl e
                     | Inr (model_pool, dx) \<Rightarrow>
                         co_propagate co model_pool dx pml_width survey_pad src_amp_pool
                           batch_src_locs batch_rec_locs dt batch_data_true st))))"

definition fwi_pml_width :: "rat \<Rightarrow> rat list" where
  \<comment> \<open>Line 119: \<open>torch.Tensor([0, 1, 1, 1, 0, 0]) * pml_width\<close>.\<close>
  "fwi_pml_width pml_width = map (\<lambda>m. m * pml_width) [0, 1, 1, 1, 0, 0]"

definition add_model_dimension :: "tensor \<Rightarrow> error + tensor" where
  \<comment> \<open>Lines 98 and 99.\<close>
  "add_model_dimension model_init =
     (case shape model_init of
        [] \<Rightarrow> Inl IndexError
      | n # sh \<Rightarrow>
          if n \<noteq> 1 then Inr (reshape model_init (1 # shape model_init))
          else Inr model_init)"

text \<open>
  The loops of \<open>fwi\<close> thread the collaborators' state and the running \<open>epoch_loss\<close>. The
  model also keeps a log of what the loops do (the survey pad computed for a stage, the
  gradient reset, a batch run, the optimiser step, the line printed after an epoch), so
  that the number of stages and epochs of a run can be stated.
\<close>

datatype event =
    CalcSurveyPad nat int
  | ZeroGrad nat
  | RunBatch nat nat
  | OptimizerStep nat
  | PrintEpoch nat rat

record 's run_state =
  rs_opt :: 's
  rs_epoch_loss :: rat
  rs_log :: "event list"

fun for_range :: "nat list \<Rightarrow> (nat \<Rightarrow> 'a \<Rightarrow> error + 'a) \<Rightarrow> 'a \<Rightarrow> error + 'a" where
  "for_range [] body s = Inr s"
| "for_range (i # rest) body s =
     (case body i s of Inl e \<Rightarrow> Inl e | Inr s' \<Rightarrow> for_range rest body s')"

definition batch_body ::
  "'s collaborators \<Rightarrow> dataset \<Rightarrow> rat \<Rightarrow> int \<Rightarrow> nat \<Rightarrow> nat \<Rightarrow> int \<Rightarrow> rat list \<Rightarrow> rat list \<Rightarrow>
   nat \<Rightarrow> nat \<Rightarrow> 's run_state \<Rightarrow> error + 's run_state" where
  "batch_body co dataset src_start_time num_pool_data num_superbatches num_batches
     max_time pml_width survey_pad superbatch_idx batch_idx rs =
     (case extract_batch dataset num_superbatches num_batches superbatch_idx batch_idx of
        Inl e \<Rightarrow> Inl e
      | Inr (batch_data_true, batch_src_locs, batch_rec_locs) \<Rightarrow>
          (case run_batch co dataset src_start_time num_pool_data batch_data_true
                  batch_src_locs batch_rec_locs max_time pml_width survey_pad (rs_opt rs) of
             Inl e \<Rightarrow> Inl e
           | Inr (st, loss) \<Rightarrow>
               Inr (rs\<lparr>rs_opt := st,
                       rs_epoch_loss := rs_epoch_loss rs + loss,
                       rs_log := rs_log rs @ [RunBatch superbatch_idx batch_idx]\<rparr>)))"

definition superbatch_body ::
  "'s collaborators \<Rightarrow> dataset \<Rightarrow> rat \<Rightarrow> int \<Rightarrow> nat \<Rightarrow> nat \<Rightarrow> int \<Rightarrow> rat list \<Rightarrow> rat list \<Rightarrow>
   nat \<Rightarrow> 's run_state \<Rightarrow> error + 's run_state" where
  "superbatch_body co dataset src_start_time num_pool_data num_superbatches num_batches
     max_time pml_width survey_pad superbatch_idx rs =
     (case for_range [0..<num_batches]
             (batch_body co dataset src_start_time num_pool_data num_superbatches
                num_batches max_time pml_width survey_pad superbatch_idx)
             (rs\<lparr>rs_opt := co_zero_grad co (rs_opt rs),
                 rs_log := rs_log rs @ [ZeroGrad superbatch_idx]\<rparr>) of
        Inl e \<Rightarrow> Inl e
      | Inr rs' \<Rightarrow>
          Inr (rs'\<lparr>rs_opt := co_step co (rs_opt rs'),
                   rs_log := rs_log rs' @ [OptimizerStep superbatch_idx]\<rparr>))"

definition epoch_body ::
  "'s collaborators \<Rightarrow> dataset \<Rightarrow> rat \<Rightarrow> int \<Rightarrow> nat \<Rightarrow> nat \<Rightarrow> int \<Rightarrow> rat list \<Rightarrow> rat list \<Rightarrow>
   nat \<Rightarrow> 's run_state \<Rightarrow> error + 's run_state" where
  "epoch_body co dataset src_start_time num_pool_data num_superbatches num_batches
     max_time pml_width survey_pad epoch rs =
     (case for_range [0..<num_superbatches]
             (superbatch_body co dataset src_start_time num_pool_data num_superbatches
                num_batches max_time pml_width survey_pad)
             (rs\<lparr>rs_epoch_loss := 0\<rparr>) of
        Inl e \<Rightarrow> Inl e
      | Inr rs' \<Rightarrow>
          Inr (rs'\<lparr>rs_log := rs_log rs' @ [PrintEpoch epoch (rs_epoch_loss rs')]\<rparr>))"

definition stage_body ::
  "'s collaborators \<Rightarrow> dataset \<Rightarrow> rat \<Rightarrow> int \<Rightarrow> nat \<Rightarrow> nat \<Rightarrow> nat \<Rightarrow> nat \<Rightarrow> rat list \<Rightarrow> rat \<Rightarrow>
   nat \<Rightarrow> 's run_state \<Rightarrow> error + 's run_state" where
  "stage_body co dataset src_start_time num_pool_data num_max_time num_epochs
     num_superbatches num_batches pml_width max_horiz_survey_pad max_time_idx rs =
     (if num_max_time = 0 then Inl ZeroDivisionError
      else
        let max_time = (int max_time_idx + 1) *
                       py_int (of_nat (ds_num_steps dataset) / of_nat num_max_time)
        in case calc_survey_pad max_time (ds_dt dataset) (co_model co (rs_opt rs))
                  max_horiz_survey_pad of
             Inl e \<Rightarrow> Inl e
           | Inr survey_pad \<Rightarrow>
               for_range [0..<num_epochs]
                 (epoch_body co dataset src_start_time num_pool_data num_superbatches
                    num_batches max_time pml_width survey_pad)
                 (rs\<lparr>rs_log := rs_log rs @ [CalcSurveyPad max_time_idx max_time]\<rparr>))"

definition fwi_run ::
  "'s collaborators \<Rightarrow> dataset \<Rightarrow> rat list \<Rightarrow> rat \<Rightarrow> tensor \<Rightarrow> int \<Rightarrow> nat \<Rightarrow> nat \<Rightarrow> nat \<Rightarrow> nat \<Rightarrow>
   rat \<Rightarrow> rat \<Rightarrow> rat \<Rightarrow> rat \<Rightarrow> bool \<Rightarrow> bool \<Rightarrow> error + 's run_state" where
  \<comment> \<open>Lines 94 to 143 of \<open>fwi\<close>; the stage loop is \<open>range(1)\<close>, as in the source.\<close>
  "fwi_run co dataset src_amp_init src_start_time model_init num_pool_data num_max_time
     num_epochs num_superbatches num_batches pml_width max_horiz_survey_pad lr_model
     lr_src_amp invert_source invert_model =
     (case add_model_dimension model_init of
        Inl e \<Rightarrow> Inl e
      | Inr model_init \<Rightarrow>
          let st = co_init co src_amp_init model_init invert_source invert_model
                     lr_src_amp lr_model;
              pml_width = fwi_pml_width pml_width
          in for_range [0..<1]
               (stage_body co dataset src_start_time num_pool_data num_max_time num_epochs
                  num_superbatches num_batches pml_width max_horiz_survey_pad)
               \<lparr>rs_opt = st, rs_epoch_loss = 0, rs_log = []\<rparr>)"

definition fwi ::
  "'s collaborators \<Rightarrow> dataset \<Rightarrow> rat list \<Rightarrow> rat \<Rightarrow> tensor \<Rightarrow> int \<Rightarrow> nat \<Rightarrow> nat \<Rightarrow> nat \<Rightarrow> nat \<Rightarrow>
   rat \<Rightarrow> rat \<Rightarrow> rat \<Rightarrow> rat \<Rightarrow> bool \<Rightarrow> bool \<Rightarrow> error + rat list \<times> tensor" where
  \<comment> \<open>Line 145: the wavelet and the model of the final state.\<close>
  "fwi co dataset src_amp_init src_start_time model_init num_pool_data num_max_time
     num_epochs num_superbatches num_batches pml_width max_horiz_survey_pad lr_model
     lr_src_amp invert_source invert_model =
     (case fwi_run co dataset src_amp_init src_start_time model_init num_pool_data
             num_max_time num_epochs num_superbatches num_batches pml_width
             max_horiz_survey_pad lr_model lr_src_amp invert_source invert_model of
        Inl e \<Rightarrow> Inl e
      | Inr rs \<Rightarrow> Inr (co_src_amp co (rs_opt rs), co_model co (rs_opt rs)))"

text \<open>
  What the log says about a run: the stages for which the survey pad was computed, with
  their time horizons, and the epochs reported.
\<close>

fun stage_events :: "event list \<Rightarrow> (nat \<times> int) list" where
  "stage_events [] = []"
| "stage_events (CalcSurveyPad max_time_idx max_time # es) =
     (max_time_idx, max_time) # stage_events es"
| "stage_events (e # es) = stage_events es"

fun printed_epochs :: "event list \<Rightarrow> nat list" where
  "printed_epochs [] = []"
| "printed_epochs (PrintEpoch epoch loss # es) = epoch # printed_epochs es"
| "printed_epochs (e # es) = printed_epochs es"

text \<open>
  A small run to evaluate: collaborators that keep the wavelet and the model as they
  are and report a zero loss, and a dataset of one shot with one trace of ten samples.
\<close>

definition example_collaborators :: "(rat list \<times> tensor) collaborators" where
  "example_collaborators =
     \<lparr>co_init = (\<lambda>src_amp model invert_source invert_model lr_src_amp lr_model.
                   (src_amp, model)),
      co_src_amp = fst,
      co_model = snd,
      co_zero_grad = (\<lambda>st. st),
      co_step = (\<lambda>st. st),
      co_avg_pool = (\<lambda>poolfunc num_pool t. Some t),
      co_propagate = (\<lambda>model_pool dx pml_width survey_pad src_amp_pool src_locs rec_locs
                        dt data st. Inr (st, 0))\<rparr>"

definition example_dataset :: dataset where
  "example_dataset =
     \<lparr>ds_num_shots = 1, ds_num_steps = 10, ds_dt = 1 / 1024, ds_dx = 5,
      ds_get_shots = (\<lambda>a b. \<lparr>shape = [b - a, 1, 10],
                                vals = concat (py_slice [[1, 2, 3, 4, 5, 6, 7, 8, 9, 10]] a b)\<rparr>),
      ds_src_locs = [[[0]]], ds_rec_locs = [[[5]]]\<rparr>"


section \<open>Evaluating floors and ceilings of rational numerals\<close>

lemma floor_rat_numeral [simp]:
  "\<lfloor>numeral a / numeral b :: rat\<rfloor> = numeral a div numeral b"
  by (metis floor_divide_of_int_eq of_int_numeral)

lemma floor_rat_neg_numeral [simp]:
  "\<lfloor>- (numeral a / numeral b) :: rat\<rfloor> = - numeral a div numeral b"
  by (metis divide_minus_left floor_divide_of_int_eq of_int_neg_numeral of_int_numeral)

lemma ceiling_rat_numeral [simp]:
  "\<lceil>numeral a / numeral b :: rat\<rceil> = - (- numeral a div numeral b)"
  by (simp add: ceiling_def)

lemma ceiling_rat_neg_numeral [simp]:
  "\<lceil>- (numeral a / numeral b) :: rat\<rceil> = - (numeral a div numeral b)"
  by (simp add: ceiling_def)

lemma py_int_nonneg: "0 \<le> x \<Longrightarrow> py_int x = \<lfloor>x\<rfloor>"
  by (simp add: py_int_def)

lemma py_prefix_nonneg: "0 \<le> k \<Longrightarrow> py_prefix xs k = take (nat k) xs"
  by (simp add: py_prefix_def)

lemma py_prefix_neg: "k < 0 \<Longrightarrow> py_prefix xs k = take (length xs - nat (- k)) xs"
proof -
  assume k: "k < 0"
  have "nat (int (length xs) + k) = length xs - nat (- k)" using k by arith
  with k show ?thesis by (simp add: py_prefix_def)
qed

section \<open>Properties of the rounding\<close>












text \<open>
  The binary64 numbers nearest to the decimals 0.01 and 0.03, used as inputs below.
\<close>

lemma decimal_doubles:
  "fl64 (1 / 100) = Some (5764607523034235 / 576460752303423488) \<and>
   fl64 (3 / 100) = Some (1080863910568919 / 36028797018963968)"
  by code_simp

section \<open>The shot ranges of a sweep\<close>

text \<open>
  C1. The claim is that one sweep of \<open>extract_batch\<close> visits every shot of
  \<open>[0, num_shots)\<close> exactly once. Evaluated on the code, it does not: with 10 shots, 2
  superbatches and 2 batches shot 5 lies in two ranges, \<open>[5, 8)\<close> of pair (0, 1) and
  \<open>[3, 6)\<close> of pair (1, 0); with 24 shots, 4 superbatches and 3 batches (the layout drawn
  in the comment of the source) shot 6 lies in two ranges and shot 20 in none.
\<close>

theorem extract_batch_sweep_not_partition:
  "batch_range 10 2 2 0 1 = Inr (5, 8) \<and> batch_range 10 2 2 1 0 = Inr (3, 6) \<and>
   visits 10 2 2 5 = 2 \<and> visits 24 4 3 6 = 2 \<and> visits 24 4 3 20 = 0"
  by code_simp

section \<open>The temporal window\<close>

lemma slice_last_nonneg:
  assumes "shape t \<noteq> []" and "0 \<le> k"
  shows "slice_last t k =
           Inr \<lparr>shape = butlast (shape t) @ [min (nat k) (last (shape t))],
                vals = concat (map (take (nat k)) (rows (last (shape t)) (vals t)))\<rparr>"
  using assms by (simp add: slice_last_def py_prefix_nonneg Let_def min.commute)

lemma slice_last_defined: "shape t \<noteq> [] \<Longrightarrow> \<exists>d. slice_last t k = Inr d"
  by (simp add: slice_last_def Let_def)

text \<open>
  C3, as amended. For data with at least one axis, a time step that is not zero and a
  number of steps \<open>max_time\<close> that is not negative, \<open>apply_max_time\<close> returns the first
  \<open>max_time\<close> samples of the data along the time axis. The wavelet is cut to its first
  \<open>trunc(time_sum)\<close> samples, where \<open>time_sum\<close> is the double-precision value of
  \<open>- src_start_time / dt + max_time\<close> (the quotient rounded to a double, then the sum),
  when that value is not negative: the fraction of the sum is cut off, the quotient is
  not rounded to an integer beforehand.
\<close>

theorem apply_max_time_trunc:
  assumes "shape batch_data_true \<noteq> []" and "dt \<noteq> 0" and "0 \<le> max_time"
    and "fl64 (- src_start_time / dt) = Some ratio"
    and "fl64 (of_int max_time) = Some steps"
    and "fl64 (ratio + steps) = Some time_sum"
    and "0 \<le> time_sum"
  shows "apply_max_time batch_data_true src_amp dt src_start_time max_time =
           Inr (\<lparr>shape = butlast (shape batch_data_true) @
                          [min (nat max_time) (last (shape batch_data_true))],
                 vals = concat (map (take (nat max_time))
                          (rows (last (shape batch_data_true)) (vals batch_data_true)))\<rparr>,
                take (nat \<lfloor>time_sum\<rfloor>) src_amp)"
  using assms
  by (simp add: apply_max_time_def slice_last_nonneg py_int_nonneg py_prefix_nonneg)

text \<open>
  With \<open>dt\<close> the double 0.01 and a wavelet that starts at the double \<open>- 0.03\<close>, the quotient
  is the double 3 and four samples are kept.
\<close>

theorem apply_max_time_trunc_witness:
  "apply_max_time \<lparr>shape = [1, 1, 3], vals = [1, 2, 3]\<rparr> [1, 2, 3, 4, 5]
     (5764607523034235 / 576460752303423488) (- (1080863910568919 / 36028797018963968)) 1 =
   Inr (\<lparr>shape = [1, 1, 1], vals = [1]\<rparr>, [1, 2, 3, 4])"
proof -
  have a: "shape \<lparr>shape = [1, 1, 3], vals = [1, 2, 3 :: rat]\<rparr> \<noteq> []"
    and b: "(5764607523034235 / 576460752303423488 :: rat) \<noteq> 0"
    and c: "(0::int) \<le> 1"
    by simp_all
  have d: "fl64 (- (- (1080863910568919 / 36028797018963968)) /
                 (5764607523034235 / 576460752303423488)) = Some 3"
    by code_simp
  have e: "fl64 (of_int 1) = Some 1" by code_simp
  have f: "fl64 (3 + 1) = Some 4" by code_simp
  have g: "(0::rat) \<le> 4" by simp
  have r: "rows (last (shape \<lparr>shape = [1, 1, 3], vals = [1, 2, 3 :: rat]\<rparr>))
             (vals \<lparr>shape = [1, 1, 3], vals = [1, 2, 3 :: rat]\<rparr>) = [[1, 2, 3]]"
    by code_simp
  from apply_max_time_trunc [OF a b c d e f g, of "[1, 2, 3, 4, 5]"] r
  show ?thesis by simp
qed

text \<open>
  The claim as stated, with \<open>round(- src_start_time / dt) + max_time\<close> samples, fails for a
  wavelet that starts 7/4 of a step before time zero: the code keeps 2 samples, the claim 3.
\<close>

theorem apply_max_time_round_counterexample:
  "apply_max_time \<lparr>shape = [1, 1, 3], vals = [1, 2, 3]\<rparr> [1, 2, 3, 4, 5] 4 (- 7) 1 =
     Inr (\<lparr>shape = [1, 1, 1], vals = [1]\<rparr>, [1, 2]) \<and>
   apply_max_time \<lparr>shape = [1, 1, 3], vals = [1, 2, 3]\<rparr> [1, 2, 3, 4, 5] 4 (- 7) 1 \<noteq>
     Inr (\<lparr>shape = [1, 1, 1], vals = [1]\<rparr>,
          take (nat (round (- (- 7) / 4 :: rat) + 1)) [1, 2, 3, 4, 5])"
  by code_simp

text \<open>
  C9, as amended. When the computed wavelet length \<open>k\<close>, the truncation of the
  double-precision sum, is negative, \<open>apply_max_time\<close> does not fail: it returns the
  wavelet without its last \<open>- k\<close> samples, which is empty only when the wavelet has at most
  \<open>- k\<close> samples.
\<close>

theorem apply_max_time_negative_length:
  assumes "shape batch_data_true \<noteq> []" and "dt \<noteq> 0"
    and "fl64 (- src_start_time / dt) = Some ratio"
    and "fl64 (of_int max_time) = Some steps"
    and "fl64 (ratio + steps) = Some time_sum"
    and "py_int time_sum = k" and "k < 0"
  shows "\<exists>d. apply_max_time batch_data_true src_amp dt src_start_time max_time =
               Inr (d, take (length src_amp - nat (- k)) src_amp) \<and>
           (take (length src_amp - nat (- k)) src_amp = [] \<longleftrightarrow> length src_amp \<le> nat (- k))"
proof -
  from slice_last_defined [OF assms(1)] obtain d where "slice_last batch_data_true max_time = Inr d"
    by blast
  with assms show ?thesis
    by (auto simp add: apply_max_time_def py_prefix_neg)
qed

theorem apply_max_time_negative_length_witness:
  "\<exists>d. apply_max_time \<lparr>shape = [1, 1, 3], vals = [1, 2, 3]\<rparr> [1, 2, 3] 1 3 1 = Inr (d, [1])"
proof -
  have a: "shape \<lparr>shape = [1, 1, 3], vals = [1, 2, 3 :: rat]\<rparr> \<noteq> []"
    and b: "(1::rat) \<noteq> 0"
    by simp_all
  have c: "fl64 (- 3 / 1) = Some (- 3)" by code_simp
  have d: "fl64 (of_int 1) = Some 1" by code_simp
  have e: "fl64 (- 3 + 1) = Some (- 2)" by code_simp
  have f: "py_int (- 2) = - 2" by (simp add: py_int_def)
  have g: "(- 2 :: int) < 0" by simp
  from apply_max_time_negative_length [OF a b c d e f g, of "[1, 2, 3]"]
  show ?thesis by simp
qed

text \<open>
  The claim as stated fails for a wavelet of 3 samples that starts 3 steps after time
  zero, with one step kept: the computed length is \<open>- 2\<close>, and the call returns the one
  sample that is left.
\<close>

theorem apply_max_time_negative_counterexample:
  "round (- 3 / 1 :: rat) + 1 < 0 \<and>
   apply_max_time \<lparr>shape = [1, 1, 3], vals = [1, 2, 3]\<rparr> [1, 2, 3] 1 3 1 =
     Inr (\<lparr>shape = [1, 1, 1], vals = [1]\<rparr>, [1])"
  by code_simp

section \<open>The width of the absorbing layer\<close>

text \<open>
  C5, as amended. The vector of widths that \<open>fwi\<close> builds has six entries: the first is
  zero (the free surface), the next three carry \<open>pml_width\<close>, and the last two are zero.
\<close>

theorem fwi_pml_width_entries:
  "fwi_pml_width pml_width = [0, pml_width, pml_width, pml_width, 0, 0]"
  by (simp add: fwi_pml_width_def)

text \<open>
  The claim as stated (the first pair zero, every other entry \<open>pml_width\<close>) fails for the
  default width 10: the second entry of the first pair is 10, and the fifth entry is 0.
\<close>

theorem fwi_pml_width_counterexample:
  "fwi_pml_width 10 ! 1 \<noteq> 0 \<and> fwi_pml_width 10 ! 4 \<noteq> 10"
  by (simp add: fwi_pml_width_def)

section \<open>The pooling of the data\<close>












section \<open>The property axis of the model\<close>

text \<open>
  C10. For a model with at least one axis, \<open>fwi\<close> puts a leading axis of length 1 in
  front of the shape exactly when the first axis of \<open>model_init\<close> has a length other than
  1; the values are untouched. A model whose first axis has length 1 is passed on
  unchanged, whatever that axis means, and it is this model that the loops start from.
\<close>

theorem fwi_model_axis:
  assumes "shape model_init \<noteq> []"
  shows "\<exists>m. add_model_dimension model_init = Inr m \<and> vals m = vals model_init \<and>
           (shape m = 1 # shape model_init \<longleftrightarrow> hd (shape model_init) \<noteq> 1) \<and>
           (hd (shape model_init) = 1 \<longrightarrow> m = model_init) \<and>
           fwi_run co dataset src_amp_init src_start_time model_init num_pool_data num_max_time
             num_epochs num_superbatches num_batches pml_width max_horiz_survey_pad lr_model
             lr_src_amp invert_source invert_model =
           for_range [0..<1]
             (stage_body co dataset src_start_time num_pool_data num_max_time num_epochs
                num_superbatches num_batches (fwi_pml_width pml_width) max_horiz_survey_pad)
             \<lparr>rs_opt = co_init co src_amp_init m invert_source invert_model lr_src_amp lr_model,
              rs_epoch_loss = 0, rs_log = []\<rparr>"
  using assms
  by (cases "shape model_init")
     (auto simp add: add_model_dimension_def fwi_run_def reshape_def Let_def)

theorem fwi_model_axis_witness:
  "add_model_dimension \<lparr>shape = [1, 3], vals = [1500, 1600, 1700]\<rparr> =
     Inr \<lparr>shape = [1, 3], vals = [1500, 1600, 1700]\<rparr> \<and>
   add_model_dimension \<lparr>shape = [2, 2], vals = [1500, 1600, 1700, 1800]\<rparr> =
     Inr \<lparr>shape = [1, 2, 2], vals = [1500, 1600, 1700, 1800]\<rparr>"
  using fwi_model_axis [of "\<lparr>shape = [1, 3], vals = [1500, 1600, 1700]\<rparr>"]
  by (simp add: add_model_dimension_def reshape_def)

section \<open>The survey pad\<close>







section \<open>The decimation of the model\<close>

lemma select_poolfunc_ValueError:
  "select_poolfunc n = Inl e \<longleftrightarrow> n \<notin> {2, 3, 4} \<and> e = ValueError"
  by (auto simp add: select_poolfunc_def)

lemma select_poolfunc_Inr:
  "select_poolfunc n = Inr c \<longleftrightarrow>
     n = 2 \<and> c = Pool_AvgPool1d \<or> n = 3 \<and> c = Pool_AvgPool2d \<or> n = 4 \<and> c = Pool_AvgPool3d"
  by (auto simp add: select_poolfunc_def)

lemma model_num_pool_not_ValueError: "model_num_pool model dt dx mcpw \<noteq> Inl ValueError"
  by (simp add: model_num_pool_def Let_def split: option.splits)

lemma tensor_first_not_ValueError: "tensor_first t \<noteq> Inl ValueError"
  by (simp add: tensor_first_def split: list.splits)

lemma scaled_dx_not_ValueError: "scaled_dx dx k \<noteq> Inl ValueError"
  by (simp add: scaled_dx_def split: option.splits)

lemma pool_model_dispatch:
  assumes "select_poolfunc (length (shape model)) = Inr c"
    and "model_num_pool model dt dx mcpw = Inr k"
  shows "pool_model avg_pool model dt dx mcpw =
           (case avg_pool c k (reshape model (1 # shape model)) of
              None \<Rightarrow> Inl RuntimeError
            | Some pooled \<Rightarrow>
                (case tensor_first pooled of
                   Inl e \<Rightarrow> Inl e
                 | Inr model_pool \<Rightarrow>
                     (case scaled_dx dx k of
                        Inl e \<Rightarrow> Inl e
                      | Inr new_dx \<Rightarrow> Inr (model_pool, new_dx))))"
  using assms by (simp add: pool_model_def)

lemma pool_model_Inr:
  "pool_model avg_pool model dt dx mcpw = Inr (model_pool, new_dx) \<longleftrightarrow>
     (\<exists>c k pooled.
        select_poolfunc (length (shape model)) = Inr c \<and>
        model_num_pool model dt dx mcpw = Inr k \<and>
        avg_pool c k (reshape model (1 # shape model)) = Some pooled \<and>
        tensor_first pooled = Inr model_pool \<and> scaled_dx dx k = Inr new_dx)"
  by (auto simp add: pool_model_def Let_def split: sum.splits option.splits)

text \<open>
  C8. \<open>pool_model\<close> raises \<open>ValueError\<close> exactly when the rank of the model is not 2, 3 or
  4. For the ranks 2, 3 and 4, once the factor is computed, the result is decided by the
  1-D, 2-D or 3-D pooling class applied to the reshaped model with that factor: where the
  class raises, \<open>pool_model\<close> raises, and where it returns, \<open>pool_model\<close> returns the first
  element of what it returned. A call that returns has applied the class of its rank.
\<close>

theorem pool_model_rank_check:
  "(pool_model avg_pool model dt dx min_cells_per_wavelength = Inl ValueError \<longleftrightarrow>
      length (shape model) \<notin> {2, 3, 4}) \<and>
   (\<forall>c k. (length (shape model) = 2 \<and> c = Pool_AvgPool1d \<or>
           length (shape model) = 3 \<and> c = Pool_AvgPool2d \<or>
           length (shape model) = 4 \<and> c = Pool_AvgPool3d) \<and>
          model_num_pool model dt dx min_cells_per_wavelength = Inr k \<longrightarrow>
      (avg_pool c k (reshape model (1 # shape model)) = None \<longrightarrow>
         pool_model avg_pool model dt dx min_cells_per_wavelength = Inl RuntimeError) \<and>
      (\<forall>pooled model_pool new_dx.
         avg_pool c k (reshape model (1 # shape model)) = Some pooled \<and>
         tensor_first pooled = Inr model_pool \<and> scaled_dx dx k = Inr new_dx \<longrightarrow>
         pool_model avg_pool model dt dx min_cells_per_wavelength = Inr (model_pool, new_dx))) \<and>
   (\<forall>model_pool new_dx.
      pool_model avg_pool model dt dx min_cells_per_wavelength = Inr (model_pool, new_dx) \<longrightarrow>
      (\<exists>c k pooled.
         (length (shape model) = 2 \<and> c = Pool_AvgPool1d \<or>
          length (shape model) = 3 \<and> c = Pool_AvgPool2d \<or>
          length (shape model) = 4 \<and> c = Pool_AvgPool3d) \<and>
         avg_pool c k (reshape model (1 # shape model)) = Some pooled \<and>
         tensor_first pooled = Inr model_pool))"
proof (intro conjI)
  show "pool_model avg_pool model dt dx min_cells_per_wavelength = Inl ValueError \<longleftrightarrow>
      length (shape model) \<notin> {2, 3, 4}"
  proof (cases "select_poolfunc (length (shape model))")
    case (Inl e)
    then show ?thesis
      using select_poolfunc_ValueError [of "length (shape model)" e]
      by (simp add: pool_model_def)
  next
    case (Inr pf)
    then have "length (shape model) \<in> {2, 3, 4}"
      using select_poolfunc_ValueError [of "length (shape model)" ValueError]
      by (metis Inl_Inr_False)
    with Inr show ?thesis
      using model_num_pool_not_ValueError [of model dt dx min_cells_per_wavelength]
        tensor_first_not_ValueError scaled_dx_not_ValueError
      by (auto simp add: pool_model_def Let_def split: sum.splits option.splits)
  qed
next
  show "\<forall>c k. (length (shape model) = 2 \<and> c = Pool_AvgPool1d \<or>
           length (shape model) = 3 \<and> c = Pool_AvgPool2d \<or>
           length (shape model) = 4 \<and> c = Pool_AvgPool3d) \<and>
          model_num_pool model dt dx min_cells_per_wavelength = Inr k \<longrightarrow>
      (avg_pool c k (reshape model (1 # shape model)) = None \<longrightarrow>
         pool_model avg_pool model dt dx min_cells_per_wavelength = Inl RuntimeError) \<and>
      (\<forall>pooled model_pool new_dx.
         avg_pool c k (reshape model (1 # shape model)) = Some pooled \<and>
         tensor_first pooled = Inr model_pool \<and> scaled_dx dx k = Inr new_dx \<longrightarrow>
         pool_model avg_pool model dt dx min_cells_per_wavelength = Inr (model_pool, new_dx))"
  proof (intro allI impI)
    fix c k
    assume h: "(length (shape model) = 2 \<and> c = Pool_AvgPool1d \<or>
           length (shape model) = 3 \<and> c = Pool_AvgPool2d \<or>
           length (shape model) = 4 \<and> c = Pool_AvgPool3d) \<and>
          model_num_pool model dt dx min_cells_per_wavelength = Inr k"
    then have s: "select_poolfunc (length (shape model)) = Inr c"
      by (simp only: select_poolfunc_Inr)
    note d = pool_model_dispatch [OF s, of dt dx min_cells_per_wavelength k avg_pool]
    from h d show "(avg_pool c k (reshape model (1 # shape model)) = None \<longrightarrow>
         pool_model avg_pool model dt dx min_cells_per_wavelength = Inl RuntimeError) \<and>
      (\<forall>pooled model_pool new_dx.
         avg_pool c k (reshape model (1 # shape model)) = Some pooled \<and>
         tensor_first pooled = Inr model_pool \<and> scaled_dx dx k = Inr new_dx \<longrightarrow>
         pool_model avg_pool model dt dx min_cells_per_wavelength = Inr (model_pool, new_dx))"
      by simp
  qed
next
  show "\<forall>model_pool new_dx.
      pool_model avg_pool model dt dx min_cells_per_wavelength = Inr (model_pool, new_dx) \<longrightarrow>
      (\<exists>c k pooled.
         (length (shape model) = 2 \<and> c = Pool_AvgPool1d \<or>
          length (shape model) = 3 \<and> c = Pool_AvgPool2d \<or>
          length (shape model) = 4 \<and> c = Pool_AvgPool3d) \<and>
         avg_pool c k (reshape model (1 # shape model)) = Some pooled \<and>
         tensor_first pooled = Inr model_pool)"
    unfolding pool_model_Inr select_poolfunc_Inr by blast
qed

lemma model_num_pool_example:
  "model_num_pool \<lparr>shape = [1, 2], vals = [1500, 2000]\<rparr> (1 / 1024) 5 4 = Inr 1"
  "model_num_pool \<lparr>shape = [1, 1, 2], vals = [1500, 2000]\<rparr> (1 / 1024) 5 4 = Inr 1"
  "scaled_dx 5 1 = Inr 5"
  by code_simp+

theorem pool_model_rank_check_witness:
  "pool_model (\<lambda>c k t. if c = Pool_AvgPool1d then Some t else None)
      \<lparr>shape = [3], vals = [1500, 1600, 1700]\<rparr> (1 / 1024) 5 4 = Inl ValueError \<and>
   pool_model (\<lambda>c k t. if c = Pool_AvgPool1d then Some t else None)
      \<lparr>shape = [1, 2], vals = [1500, 2000]\<rparr> (1 / 1024) 5 4 =
      Inr (\<lparr>shape = [1, 2], vals = [1500, 2000]\<rparr>, 5) \<and>
   pool_model (\<lambda>c k t. if c = Pool_AvgPool1d then Some t else None)
      \<lparr>shape = [1, 1, 2], vals = [1500, 2000]\<rparr> (1 / 1024) 5 4 = Inl RuntimeError"
  using pool_model_rank_check [of "\<lambda>c k t. if c = Pool_AvgPool1d then Some t else None"
          "\<lparr>shape = [3], vals = [1500, 1600, 1700]\<rparr>" "1 / 1024" 5 4]
        pool_model_rank_check [of "\<lambda>c k t. if c = Pool_AvgPool1d then Some t else None"
          "\<lparr>shape = [1, 2], vals = [1500, 2000]\<rparr>" "1 / 1024" 5 4]
        pool_model_rank_check [of "\<lambda>c k t. if c = Pool_AvgPool1d then Some t else None"
          "\<lparr>shape = [1, 1, 2], vals = [1500, 2000]\<rparr>" "1 / 1024" 5 4]
        model_num_pool_example
  by (simp add: reshape_def tensor_first_def)






section \<open>The loops of \<open>fwi\<close>\<close>

lemma stage_events_append: "stage_events (xs @ ys) = stage_events xs @ stage_events ys"
  by (induction xs rule: stage_events.induct) simp_all

lemma printed_epochs_append: "printed_epochs (xs @ ys) = printed_epochs xs @ printed_epochs ys"
  by (induction xs rule: printed_epochs.induct) simp_all

lemma for_range_log:
  assumes "\<And>i s s'. i \<in> set idxs \<Longrightarrow> body i s = Inr s' \<Longrightarrow> h (rs_log s') = h (rs_log s) @ g i"
    and "for_range idxs body s = Inr s'"
  shows "h (rs_log s') = h (rs_log s) @ concat (map g idxs)"
  using assms
proof (induction idxs arbitrary: s)
  case Nil
  then show ?case by simp
next
  case (Cons i idxs)
  from Cons.prems(2) obtain s1 where s1: "body i s = Inr s1"
    and rest: "for_range idxs body s1 = Inr s'"
    by (auto split: sum.splits)
  have "h (rs_log s1) = h (rs_log s) @ g i"
    using Cons.prems(1) s1 by simp
  moreover have "h (rs_log s') = h (rs_log s1) @ concat (map g idxs)"
    using Cons.IH [OF _ rest] Cons.prems(1) by simp
  ultimately show ?case by simp
qed

lemma batch_body_log:
  assumes "batch_body co dataset src_start_time num_pool_data num_superbatches num_batches
     max_time pml_width survey_pad superbatch_idx batch_idx rs = Inr rs'"
  shows "rs_log rs' = rs_log rs @ [RunBatch superbatch_idx batch_idx]"
  using assms by (auto simp add: batch_body_def split: sum.splits prod.splits)

lemma superbatch_body_log:
  assumes "superbatch_body co dataset src_start_time num_pool_data num_superbatches
     num_batches max_time pml_width survey_pad superbatch_idx rs = Inr rs'"
  shows "stage_events (rs_log rs') = stage_events (rs_log rs)"
    and "printed_epochs (rs_log rs') = printed_epochs (rs_log rs)"
proof -
  from assms obtain rs1 where
    loop: "for_range [0..<num_batches]
             (batch_body co dataset src_start_time num_pool_data num_superbatches
                num_batches max_time pml_width survey_pad superbatch_idx)
             (rs\<lparr>rs_opt := co_zero_grad co (rs_opt rs),
                 rs_log := rs_log rs @ [ZeroGrad superbatch_idx]\<rparr>) = Inr rs1"
    and rs': "rs' = rs1\<lparr>rs_opt := co_step co (rs_opt rs1),
                       rs_log := rs_log rs1 @ [OptimizerStep superbatch_idx]\<rparr>"
    by (auto simp add: superbatch_body_def split: sum.splits)
  have a: "stage_events (rs_log rs1) =
        stage_events (rs_log rs @ [ZeroGrad superbatch_idx]) @ concat (map (\<lambda>i. []) [0..<num_batches])"
    using for_range_log [OF _ loop, of stage_events "\<lambda>i. []"]
    by (simp add: batch_body_log stage_events_append)
  have b: "printed_epochs (rs_log rs1) =
        printed_epochs (rs_log rs @ [ZeroGrad superbatch_idx]) @ concat (map (\<lambda>i. []) [0..<num_batches])"
    using for_range_log [OF _ loop, of printed_epochs "\<lambda>i. []"]
    by (simp add: batch_body_log printed_epochs_append)
  show "stage_events (rs_log rs') = stage_events (rs_log rs)"
    using a by (simp add: rs' stage_events_append)
  show "printed_epochs (rs_log rs') = printed_epochs (rs_log rs)"
    using b by (simp add: rs' printed_epochs_append)
qed

lemma epoch_body_log:
  assumes "epoch_body co dataset src_start_time num_pool_data num_superbatches num_batches
     max_time pml_width survey_pad epoch rs = Inr rs'"
  shows "stage_events (rs_log rs') = stage_events (rs_log rs)"
    and "printed_epochs (rs_log rs') = printed_epochs (rs_log rs) @ [epoch]"
proof -
  from assms obtain rs1 where
    loop: "for_range [0..<num_superbatches]
             (superbatch_body co dataset src_start_time num_pool_data num_superbatches
                num_batches max_time pml_width survey_pad)
             (rs\<lparr>rs_epoch_loss := 0\<rparr>) = Inr rs1"
    and rs': "rs' = rs1\<lparr>rs_log := rs_log rs1 @ [PrintEpoch epoch (rs_epoch_loss rs1)]\<rparr>"
    by (auto simp add: epoch_body_def split: sum.splits)
  have a: "stage_events (rs_log rs1) =
        stage_events (rs_log (rs\<lparr>rs_epoch_loss := 0\<rparr>)) @ concat (map (\<lambda>i. []) [0..<num_superbatches])"
    using superbatch_body_log(1) by (intro for_range_log [OF _ loop]) simp
  have b: "printed_epochs (rs_log rs1) =
        printed_epochs (rs_log (rs\<lparr>rs_epoch_loss := 0\<rparr>)) @ concat (map (\<lambda>i. []) [0..<num_superbatches])"
    using superbatch_body_log(2) by (intro for_range_log [OF _ loop]) simp
  show "stage_events (rs_log rs') = stage_events (rs_log rs)"
    using a by (simp add: rs' stage_events_append)
  show "printed_epochs (rs_log rs') = printed_epochs (rs_log rs) @ [epoch]"
    using b by (simp add: rs' printed_epochs_append)
qed

lemma concat_singletons: "concat (map (\<lambda>i. [i]) xs) = xs"
  by (induction xs) simp_all

lemma py_int_of_nat_divide: "py_int (of_nat a / of_nat b) = int (a div b)"
proof -
  have "(0::rat) \<le> of_nat a / of_nat b" by simp
  then have "py_int (of_nat a / of_nat b) = \<lfloor>(of_nat a :: rat) / of_nat b\<rfloor>"
    by (simp add: py_int_def)
  then show ?thesis by (simp only: floor_divide_of_nat_eq)
qed

lemma stage_body_log:
  assumes "stage_body co dataset src_start_time num_pool_data num_max_time num_epochs
     num_superbatches num_batches pml_width max_horiz_survey_pad max_time_idx rs = Inr rs'"
  shows "0 < num_max_time"
    and "stage_events (rs_log rs') = stage_events (rs_log rs) @
           [(max_time_idx, (int max_time_idx + 1) * int (ds_num_steps dataset div num_max_time))]"
    and "printed_epochs (rs_log rs') = printed_epochs (rs_log rs) @ [0..<num_epochs]"
proof -
  let ?max_time = "(int max_time_idx + 1) * int (ds_num_steps dataset div num_max_time)"
  from assms show pos: "0 < num_max_time"
    by (auto simp add: stage_body_def split: if_splits)
  with assms obtain survey_pad where
    loop: "for_range [0..<num_epochs]
             (epoch_body co dataset src_start_time num_pool_data num_superbatches
                num_batches ?max_time pml_width survey_pad)
             (rs\<lparr>rs_log := rs_log rs @ [CalcSurveyPad max_time_idx ?max_time]\<rparr>) = Inr rs'"
    by (auto simp add: stage_body_def Let_def py_int_of_nat_divide split: sum.splits)
  have a: "stage_events (rs_log rs') =
        stage_events (rs_log (rs\<lparr>rs_log := rs_log rs @ [CalcSurveyPad max_time_idx ?max_time]\<rparr>))
        @ concat (map (\<lambda>i. []) [0..<num_epochs])"
    using epoch_body_log(1) by (intro for_range_log [OF _ loop]) simp
  have b: "printed_epochs (rs_log rs') =
        printed_epochs (rs_log (rs\<lparr>rs_log := rs_log rs @ [CalcSurveyPad max_time_idx ?max_time]\<rparr>))
        @ concat (map (\<lambda>i. [i]) [0..<num_epochs])"
    using epoch_body_log(2) by (intro for_range_log [OF _ loop]) simp
  show "stage_events (rs_log rs') = stage_events (rs_log rs) @ [(max_time_idx, ?max_time)]"
    using a by (simp add: stage_events_append)
  show "printed_epochs (rs_log rs') = printed_epochs (rs_log rs) @ [0..<num_epochs]"
    using b by (simp add: printed_epochs_append concat_singletons)
qed

text \<open>
  C2, as amended. A call of \<open>fwi\<close> that returns has run exactly one stage, of index 0,
  whatever \<open>num_max_time\<close> is (a positive number): its time horizon is
  \<open>max_time = trunc(num_steps / num_max_time)\<close>, the survey pad was computed once, for
  that stage, the epochs \<open>0, ..., num_epochs - 1\<close> were run and reported in this order,
  and the result is the wavelet and the model of the final state.
\<close>

theorem fwi_single_stage:
  assumes "fwi co dataset src_amp_init src_start_time model_init num_pool_data num_max_time
     num_epochs num_superbatches num_batches pml_width max_horiz_survey_pad lr_model
     lr_src_amp invert_source invert_model = Inr (src_amp, model)"
  shows "\<exists>rs. fwi_run co dataset src_amp_init src_start_time model_init num_pool_data
             num_max_time num_epochs num_superbatches num_batches pml_width
             max_horiz_survey_pad lr_model lr_src_amp invert_source invert_model = Inr rs \<and>
           src_amp = co_src_amp co (rs_opt rs) \<and> model = co_model co (rs_opt rs) \<and>
           0 < num_max_time \<and>
           stage_events (rs_log rs) = [(0, int (ds_num_steps dataset div num_max_time))] \<and>
           printed_epochs (rs_log rs) = [0..<num_epochs]"
proof -
  from assms obtain rs where
    run: "fwi_run co dataset src_amp_init src_start_time model_init num_pool_data
             num_max_time num_epochs num_superbatches num_batches pml_width
             max_horiz_survey_pad lr_model lr_src_amp invert_source invert_model = Inr rs"
    and out: "src_amp = co_src_amp co (rs_opt rs)" "model = co_model co (rs_opt rs)"
    by (auto simp add: fwi_def split: sum.splits)
  from run obtain m where
    stage: "stage_body co dataset src_start_time num_pool_data num_max_time num_epochs
              num_superbatches num_batches (fwi_pml_width pml_width) max_horiz_survey_pad 0
              \<lparr>rs_opt = co_init co src_amp_init m invert_source invert_model lr_src_amp lr_model,
               rs_epoch_loss = 0, rs_log = []\<rparr> = Inr rs"
    by (auto simp add: fwi_run_def Let_def split: sum.splits)
  from stage_body_log [OF stage] run out show ?thesis by simp
qed

lemma fwi_example:
  "fwi_run example_collaborators example_dataset [1, 2, 3, 4, 5, 6, 7, 8, 9, 10] 0
     \<lparr>shape = [1, 2], vals = [1500, 2000]\<rparr> 1 2 1 1 1 10 500 100000 (1 / 10000) True True =
   Inr \<lparr>rs_opt = ([1, 2, 3, 4, 5, 6, 7, 8, 9, 10], \<lparr>shape = [1, 2], vals = [1500, 2000]\<rparr>),
        rs_epoch_loss = 0,
        rs_log = [CalcSurveyPad 0 5, ZeroGrad 0, RunBatch 0 0, OptimizerStep 0, PrintEpoch 0 0]\<rparr>"
  by code_simp

theorem fwi_single_stage_witness:
  "fwi example_collaborators example_dataset [1, 2, 3, 4, 5, 6, 7, 8, 9, 10] 0
     \<lparr>shape = [1, 2], vals = [1500, 2000]\<rparr> 1 2 1 1 1 10 500 100000 (1 / 10000) True True =
     Inr ([1, 2, 3, 4, 5, 6, 7, 8, 9, 10], \<lparr>shape = [1, 2], vals = [1500, 2000]\<rparr>) \<and>
   (\<exists>rs. fwi_run example_collaborators example_dataset [1, 2, 3, 4, 5, 6, 7, 8, 9, 10] 0
     \<lparr>shape = [1, 2], vals = [1500, 2000]\<rparr> 1 2 1 1 1 10 500 100000 (1 / 10000) True True =
     Inr rs \<and> stage_events (rs_log rs) = [(0, 5)] \<and> printed_epochs (rs_log rs) = [0])"
proof -
  have f: "fwi example_collaborators example_dataset [1, 2, 3, 4, 5, 6, 7, 8, 9, 10] 0
     \<lparr>shape = [1, 2], vals = [1500, 2000]\<rparr> 1 2 1 1 1 10 500 100000 (1 / 10000) True True =
     Inr ([1, 2, 3, 4, 5, 6, 7, 8, 9, 10], \<lparr>shape = [1, 2], vals = [1500, 2000]\<rparr>)"
    using fwi_example by (simp add: fwi_def example_collaborators_def)
  have n: "int (ds_num_steps example_dataset div 2) = 5"
    by (simp add: example_dataset_def)
  from fwi_single_stage [OF f] f n show ?thesis
    by auto
qed

text \<open>
  The claim as stated has \<open>num_max_time\<close> stages. A run with \<open>num_max_time = 2\<close> and one
  epoch has one stage, with 5 of the 10 time steps, and reports one epoch.
\<close>

theorem fwi_stage_count_counterexample:
  "(case fwi_run example_collaborators example_dataset [1, 2, 3, 4, 5, 6, 7, 8, 9, 10] 0
          \<lparr>shape = [1, 2], vals = [1500, 2000]\<rparr> 1 2 1 1 1 10 500 100000 (1 / 10000)
          True True of
      Inl e \<Rightarrow> False
    | Inr rs \<Rightarrow>
        stage_events (rs_log rs) = [(0, 5)] \<and> length (stage_events (rs_log rs)) \<noteq> 2 \<and>
        printed_epochs (rs_log rs) = [0])"
  using fwi_example by simp


end
